theory Spec2Isabelle
  imports Main "HOL-Library.Sublist" "HOL-Library.AList"
begin

section \<open>The job lifecycle of lpcjobqueue (cluster.py)\<close>

text \<open>
  A shallow embedding of \<^verbatim>\<open>LPCCondorJob\<close> and \<^verbatim>\<open>LPCCondorCluster\<close>.
  The batch-queue scheduler \<^verbatim>\<open>SCHEDD\<close>, the worker-pool channel and the base classes
  are external collaborators: what each of their calls answers (a value or a raised
  exception) is a parameter of the model, and every call made is recorded in a trace.
  Each coroutine is modelled as one sequential run; the interleaving of several
  controllers is outside the model.
\<close>

subsection \<open>Exceptions, status values and recorded events\<close>

text \<open>
  The exception classes that occur: \<^verbatim>\<open>htcondor.HTCondorInternalError\<close> is the one class
  named by the \<^verbatim>\<open>except\<close> clause of \<^verbatim>\<open>sub\<close>; \<^verbatim>\<open>HTCondorIOError\<close> stands for any other
  failure class of the bindings; the rest are Python's own.
\<close>

datatype py_exn =
    HTCondorInternalError string
  | HTCondorIOError string
  | ValueError string
  | TypeError string
  | AttributeError string
  | RuntimeError string
  | OSError string
  | CommError string

text \<open>
  A handler catches the class it names and that class's subclasses. \<^verbatim>\<open>HTCondorIOError\<close>
  derives from \<^verbatim>\<open>IOError\<close>, which is \<^verbatim>\<open>OSError\<close>, and so does the worker-pool channel's
  \<^verbatim>\<open>CommClosedError\<close> (\<open>CommError\<close> here); none of the classes listed derives from
  \<^verbatim>\<open>HTCondorInternalError\<close>.
\<close>

fun isinstance_OSError :: "py_exn \<Rightarrow> bool" where
  "isinstance_OSError (OSError _) = True"
| "isinstance_OSError (HTCondorIOError _) = True"
| "isinstance_OSError (CommError _) = True"
| "isinstance_OSError _ = False"

text \<open>The members of \<^verbatim>\<open>distributed.core.Status\<close>.\<close>

datatype Status =
    undefined_status | created | init | starting | running | paused | stopping
  | stopped | closing | closing_gracefully | closed | failed | dont_reply

datatype level = DEBUG | INFO | WARNING | ERROR

text \<open>One constructor per logging call of the source, in the order of the file.\<close>

datatype log_msg =
    Starting_worker
  | ClassAds_for_job
  | Submit_error string
  | Starting_job
  | Closing_worker
  | Retirement_info
  | Gracefully_closed
  | Reached_timeout
  | Forcefully_closed
  | Failed_to_forcefully_close
  | Last_ditch_attempt

text \<open>
  The constraint string \<^verbatim>\<open>f"ClusterId == {job_id}"\<close> is represented by the job id it
  is built from (\<open>None\<close> when the attribute is \<^verbatim>\<open>None\<close>).
\<close>

datatype event =
    Log level log_msg
  | Transaction_queue
  | Spool
  | Retire_workers string
  | Sleep nat
  | Query "int option"
  | Act_Remove "int option"

subsection \<open>The controller object and the process-wide state\<close>

record job =
  name :: string
  log_directory :: "string option"
  job_header_dict :: "(string \<times> string) list"
  job_id :: "int option"
  status :: Status
  event_finished :: bool
  cluster_bound :: bool

text \<open>
  \<open>known_jobs\<close> is the class attribute shared by all controllers; \<open>finalizers\<close> lists the
  job ids for which \<^verbatim>\<open>weakref.finalize(self, self._close_job, job_id)\<close> was registered.
\<close>

record world =
  known_jobs :: "int set"
  finalizers :: "int list"
  trace :: "event list"

definition emit :: "world \<Rightarrow> event list \<Rightarrow> world" where
  "emit w es = w\<lparr>trace := trace w @ es\<rparr>"

text \<open>\<^verbatim>\<open>set.discard\<close> of the attribute \<^verbatim>\<open>job_id\<close>; the set holds integers only.\<close>

fun discard :: "int option \<Rightarrow> int set \<Rightarrow> int set" where
  "discard None s = s"
| "discard (Some i) s = s - {i}"

subsection \<open>\<^verbatim>\<open>LPCCondorJob.start\<close>\<close>

text \<open>
  \<open>queue_txn\<close> is the outcome of the block
  \<^verbatim>\<open>with SCHEDD.transaction() as txn: cluster_id = job.queue(txn, ad_results=classads)\<close>,
  \<open>spool\<close> the outcome of \<^verbatim>\<open>SCHEDD.spool(classads)\<close>.
\<close>

record submit_env =
  queue_txn :: "py_exn + int"
  spool :: "py_exn + unit"

text \<open>The clause \<^verbatim>\<open>except htcondor.HTCondorInternalError as ex\<close>: any other class propagates.\<close>

fun except_internal :: "py_exn \<Rightarrow> world \<Rightarrow> (py_exn + int option) \<times> world" where
  "except_internal (HTCondorInternalError m) w = (Inr None, emit w [Log ERROR (Submit_error m)])"
| "except_internal ex w = (Inl ex, w)"

definition sub :: "submit_env \<Rightarrow> world \<Rightarrow> (py_exn + int option) \<times> world" where
  "sub env w =
     (let w1 = emit w [Transaction_queue] in
      case queue_txn env of
        Inl ex \<Rightarrow> except_internal ex w1
      | Inr cluster_id \<Rightarrow>
          (let w2 = emit w1 [Log DEBUG ClassAds_for_job, Spool] in
           case spool env of
             Inl ex \<Rightarrow> except_internal ex w2
           | Inr _ \<Rightarrow> (Inr (Some cluster_id), w2)))"

text \<open>
  \<^verbatim>\<open>start\<close> returns \<^verbatim>\<open>None\<close>; the id it obtained is the attribute \<open>job_id\<close> of the
  controller afterwards. An exception leaving \<^verbatim>\<open>sub\<close> leaves the attribute unassigned.
  The test \<^verbatim>\<open>if self.job_id:\<close> is Python truthiness: \<^verbatim>\<open>None\<close> and the integer 0 are
  false, every other integer is true.
\<close>

definition start :: "submit_env \<Rightarrow> job \<times> world \<Rightarrow> (py_exn + unit) \<times> job \<times> world" where
  "start env jw =
     (case jw of (j, w) \<Rightarrow>
      (case sub env (emit w [Log INFO Starting_worker]) of
         (Inl ex, w1) \<Rightarrow> (Inl ex, j, w1)
       | (Inr r, w1) \<Rightarrow>
           (let j1 = j\<lparr>job_id := r\<rparr> in
            case r of
              None \<Rightarrow> (Inr (), j1, w1)
            | Some cluster_id \<Rightarrow>
                if cluster_id \<noteq> 0 then
                  (Inr (),
                   j1\<lparr>status := running\<rparr>,
                   emit (w1\<lparr>known_jobs := insert cluster_id (known_jobs w1),
                            finalizers := finalizers w1 @ [cluster_id]\<rparr>)
                        [Log INFO Starting_job])
                else (Inr (), j1, w1))))"

subsection \<open>\<^verbatim>\<open>LPCCondorJob.close\<close>\<close>

text \<open>
  The result record of \<^verbatim>\<open>SCHEDD.act\<close>, with the two counts the source reads. \<open>query env i\<close>
  is the outcome of the query made in iteration \<open>i\<close> of \<^verbatim>\<open>for _ in range(30)\<close>: the
  number of rows returned, or the exception raised.
\<close>

record act_result =
  TotalSuccess :: int
  TotalChangedAds :: int

record close_env =
  retire_workers :: "py_exn + unit"
  query :: "nat \<Rightarrow> py_exn + nat"
  act :: "py_exn + act_result"

text \<open>
  Python's \<^verbatim>\<open>close\<close> returns \<^verbatim>\<open>None\<close> from three places; the model's return value names
  the place: the \<^verbatim>\<open>return\<close> inside the loop, the one after a successful removal, and
  the end of the function after the error log.
\<close>

datatype close_exit = Graceful | Forced | Forced_failed

definition check_gone :: "close_env \<Rightarrow> nat \<Rightarrow> py_exn + bool" where
  "check_gone env i = (case query env i of Inl ex \<Rightarrow> Inl ex | Inr rows \<Rightarrow> Inr (rows = 0))"

definition stop :: "close_env \<Rightarrow> py_exn + bool" where
  "stop env =
     (case act env of
        Inl ex \<Rightarrow> Inl ex
      | Inr res \<Rightarrow> Inr (TotalSuccess res = 1 \<and> TotalChangedAds res = 1))"

text \<open>The three statements shared by both successful exits.\<close>

definition finish :: "log_msg \<Rightarrow> job \<times> world \<Rightarrow> job \<times> world" where
  "finish m jw =
     (case jw of (j, w) \<Rightarrow>
        (j\<lparr>status := closed, event_finished := True\<rparr>,
         (emit w [Log INFO m])\<lparr>known_jobs := discard (job_id j) (known_jobs w)\<rparr>))"

text \<open>
  The loop \<^verbatim>\<open>for _ in range(30)\<close>, over the list of its iterations. \<open>Inr True\<close>: the
  function returned inside the loop; \<open>Inr False\<close>: the loop ran out.
\<close>

fun poll_loop :: "close_env \<Rightarrow> nat list \<Rightarrow> job \<times> world \<Rightarrow> (py_exn + bool) \<times> job \<times> world" where
  "poll_loop env [] jw = (Inr False, jw)"
| "poll_loop env (i # rest) jw =
     (case jw of (j, w) \<Rightarrow>
      (let w1 = emit w [Sleep 1, Query (job_id j)] in
       case check_gone env i of
         Inl ex \<Rightarrow> (Inl ex, j, w1)
       | Inr gone \<Rightarrow>
           if gone then (Inr True, finish Gracefully_closed (j, w1))
           else poll_loop env rest (j, w1)))"

definition retire :: "close_env \<Rightarrow> job \<times> world \<Rightarrow> (py_exn + unit) \<times> world" where
  "retire env jw =
     (case jw of (j, w) \<Rightarrow>
        if cluster_bound j then
          (let w1 = emit w [Retire_workers (name j)] in
           case retire_workers env of
             Inl ex \<Rightarrow> (Inl ex, w1)
           | Inr _ \<Rightarrow> (Inr (), emit w1 [Log DEBUG Retirement_info]))
        else (Inr (), w))"

definition close :: "close_env \<Rightarrow> job \<times> world \<Rightarrow> (py_exn + close_exit) \<times> job \<times> world" where
  "close env jw =
     (case jw of (j, w) \<Rightarrow>
      (case retire env (j, emit w [Log INFO Closing_worker]) of
         (Inl ex, w1) \<Rightarrow> (Inl ex, j, w1)
       | (Inr _, w1) \<Rightarrow>
           (case poll_loop env [0..<30] (j, w1) of
              (Inl ex, j2, w2) \<Rightarrow> (Inl ex, j2, w2)
            | (Inr True, j2, w2) \<Rightarrow> (Inr Graceful, j2, w2)
            | (Inr False, j2, w2) \<Rightarrow>
                (let w3 = emit w2 [Log INFO Reached_timeout, Act_Remove (job_id j2)] in
                 case stop env of
                   Inl ex \<Rightarrow> (Inl ex, j2, w3)
                 | Inr result \<Rightarrow>
                     if result then
                       (case finish Forcefully_closed (j2, w3) of (j4, w4) \<Rightarrow> (Inr Forced, j4, w4))
                     else (Inr Forced_failed, j2, emit w3 [Log ERROR Failed_to_forcefully_close])))))"

subsection \<open>The finalizer \<^verbatim>\<open>LPCCondorJob._close_job\<close>\<close>

definition close_job :: "py_exn + act_result \<Rightarrow> int \<Rightarrow> world \<Rightarrow> (py_exn + unit) \<times> world" where
  "close_job act_outcome jid w =
     (if jid \<in> known_jobs w then
        (let w1 = emit w [Log WARNING Last_ditch_attempt, Act_Remove (Some jid)] in
         case act_outcome of
           Inl ex \<Rightarrow> (Inl ex, w1)
         | Inr _ \<Rightarrow> (Inr (), w1\<lparr>known_jobs := known_jobs w1 - {jid}\<rparr>))
      else (Inr (), w))"

subsection \<open>\<^verbatim>\<open>LPCCondorJob.__init__\<close>\<close>

definition container_prefix :: string where
  "container_prefix = ''/cvmfs/unpacked.cern.ch/registry.hub.docker.com/''"

text \<open>\<^verbatim>\<open>dict.update\<close>: an existing key keeps its place, a new key goes to the end.\<close>

definition dict_update :: "('k \<times> 'v) list \<Rightarrow> ('k \<times> 'v) list \<Rightarrow> ('k \<times> 'v) list" where
  "dict_update d new = foldl (\<lambda>acc kv. AList.update (fst kv) (snd kv) acc) d new"

text \<open>
  \<open>base\<close> is the object as \<^verbatim>\<open>super().__init__\<close> leaves it (the base class sets
  \<open>log_directory\<close> and \<open>job_header_dict\<close>); \<open>homedir\<close> is \<^verbatim>\<open>os.path.expanduser("~")\<close>.
  \<^verbatim>\<open>if self.log_directory:\<close> is false for \<^verbatim>\<open>None\<close> and for the empty string;
  \<^verbatim>\<open>str.startswith\<close> is \<^const>\<open>prefix\<close>.
\<close>

definition LPCCondorJob_init :: "string \<Rightarrow> string \<Rightarrow> job \<Rightarrow> py_exn + job" where
  "LPCCondorJob_init homedir image0 base =
     (let image = container_prefix @ image0 in
      if (case log_directory base of
            None \<Rightarrow> False
          | Some d \<Rightarrow> d \<noteq> [] \<and> \<not> prefix homedir d)
      then Inl (ValueError (''log_directory must be a subpath of '' @ homedir @
                  '' or else the schedd cannot write our logs back to the container''))
      else Inr (base\<lparr>job_header_dict :=
                  dict_update (job_header_dict base)
                    [(''initialdir'', homedir),
                     (''use_x509userproxy'', ''true''),
                     (''when_to_transfer_output'', ''ON_EXIT_OR_EVICT''),
                     (''transfer_output_files'', []),
                     (''+SingularityImage'', [CHR 0x22] @ image @ [CHR 0x22])]\<rparr>))"

subsection \<open>\<^verbatim>\<open>LPCCondorCluster.__init__\<close>\<close>

text \<open>Python values as far as keyword arguments need them; a \<^verbatim>\<open>dict\<close> keeps its order.\<close>

datatype pyval = PNone | PStr string | PInt int | PDict "(pyval \<times> pyval) list"

text \<open>A key of a \<^verbatim>\<open>dict\<close> must be hashable, and a \<^verbatim>\<open>dict\<close> is not.\<close>

fun hashable :: "pyval \<Rightarrow> bool" where
  "hashable (PDict _) = False"
| "hashable _ = True"

text \<open>
  \<^verbatim>\<open>d.setdefault(key)\<close> with the default \<^verbatim>\<open>None\<close>: hashes the key, then inserts it when
  absent. The source drops the value returned, so the model returns the dictionary.
\<close>

definition setdefault :: "(pyval \<times> pyval) list \<Rightarrow> pyval \<Rightarrow> py_exn + (pyval \<times> pyval) list" where
  "setdefault d key =
     (if \<not> hashable key
      then Inl (TypeError (''unhashable type: '' @ [CHR 0x27] @ ''dict'' @ [CHR 0x27]))
      else case map_of d key of
             Some _ \<Rightarrow> Inr d
           | None \<Rightarrow> Inr (d @ [(key, PNone)]))"

text \<open>Decimal digits of a natural number, as an f-string prints a non-negative integer.\<close>

fun decimal :: "nat \<Rightarrow> string" where
  "decimal n =
     (if n < 10 then [''0123456789'' ! n]
      else decimal (n div 10) @ [''0123456789'' ! (n mod 10)])"

declare decimal.simps [simp del]

text \<open>
  \<open>hostname\<close> is \<^verbatim>\<open>socket.gethostname()\<close>, \<open>port\<close> the value drawn by
  \<^verbatim>\<open>random.randint(10000, 10100)\<close>, \<open>super_init\<close> the constructor of the base class.
  The call of \<^verbatim>\<open>setdefault\<close> is outside the \<^verbatim>\<open>try\<close>, and the handler names
  \<^verbatim>\<open>OSError\<close>, so it catches that class and its subclasses. A value of \<^verbatim>\<open>scheduler_options\<close> that is not a \<^verbatim>\<open>dict\<close> has no
  method \<^verbatim>\<open>setdefault\<close>.
\<close>

definition LPCCondorCluster_init ::
  "string \<Rightarrow> nat \<Rightarrow> ((string \<times> pyval) list \<Rightarrow> py_exn + 'c) \<Rightarrow> (string \<times> pyval) list \<Rightarrow> py_exn + 'c" where
  "LPCCondorCluster_init hostname port super_init kwargs =
     (let scheduler_options = PDict [(PStr ''host'', PStr (hostname @ '':'' @ decimal port))] in
      case (case map_of kwargs ''scheduler_options'' of
              Some (PDict d) \<Rightarrow>
                (case setdefault d scheduler_options of
                   Inl ex \<Rightarrow> Inl ex
                 | Inr d' \<Rightarrow> Inr (AList.update ''scheduler_options'' (PDict d') kwargs))
            | Some _ \<Rightarrow> Inl (AttributeError ''setdefault'')
            | None \<Rightarrow> Inr (AList.update ''scheduler_options'' scheduler_options kwargs)) of
        Inl ex \<Rightarrow> Inl ex
      | Inr kwargs' \<Rightarrow>
          (case super_init kwargs' of
             Inl ex \<Rightarrow>
               if isinstance_OSError ex
               then Inl (RuntimeError (''Likely failed to bind to local port '' @ decimal port @
                           '', try rerunning''))
               else Inl ex
           | Inr cluster \<Rightarrow> Inr cluster))"

subsection \<open>Vocabulary of the statements\<close>

text \<open>
  The definitions below are not part of the source: they name what the theorems talk
  about (the events of a run, counts over a trace, a sub-path in the sense of the
  specification) and fix the concrete inputs at which the theorems are instantiated.
\<close>

text \<open>The events of \<open>n\<close> iterations of the loop: a sleep of one second, then a query.\<close>

definition polling :: "int option \<Rightarrow> nat \<Rightarrow> event list" where
  "polling jid n = concat (replicate n [Sleep 1, Query jid])"

text \<open>Queries and remove actions sent to the scheduler, counted over a trace.\<close>

fun is_poll :: "event \<Rightarrow> bool" where
  "is_poll (Query _) = True"
| "is_poll _ = False"

fun is_removal :: "event \<Rightarrow> bool" where
  "is_removal (Act_Remove _) = True"
| "is_removal _ = False"

definition polls :: "event list \<Rightarrow> nat" where
  "polls es = length (filter is_poll es)"

definition removals :: "event list \<Rightarrow> nat" where
  "removals es = length (filter is_removal es)"

text \<open>The events of the retirement request when it returns.\<close>

definition retirement :: "job \<Rightarrow> event list" where
  "retirement j = (if cluster_bound j then [Retire_workers (name j), Log DEBUG Retirement_info] else [])"

text \<open>
  A controller as the base class leaves it and an empty process state; a scheduler that
  reports the job gone from iteration \<open>k\<close> on (\<open>gone_at\<close>), one that never does
  (\<open>never_gone\<close>), one whose queries raise from iteration \<open>k\<close> on (\<open>raising_at\<close>) or
  always (\<open>query_fails\<close>).
\<close>

definition example_job :: job where
  "example_job =
     \<lparr>name = ''worker-0'', log_directory = None, job_header_dict = [], job_id = None,
      status = created, event_finished = False, cluster_bound = True\<rparr>"

definition example_world :: world where
  "example_world = \<lparr>known_jobs = {}, finalizers = [], trace = []\<rparr>"

definition gone_at :: "nat \<Rightarrow> close_env" where
  "gone_at k =
     \<lparr>retire_workers = Inr (),
      query = (\<lambda>i. if i < k then Inr 1 else Inr 0),
      act = Inr \<lparr>TotalSuccess = 1, TotalChangedAds = 1\<rparr>\<rparr>"

definition never_gone :: "py_exn + act_result \<Rightarrow> close_env" where
  "never_gone a = \<lparr>retire_workers = Inr (), query = (\<lambda>i. Inr 1), act = a\<rparr>"

text \<open>A call ended by an exception.\<close>

definition raises :: "py_exn + 'a \<Rightarrow> bool" where
  "raises r = (case r of Inl _ \<Rightarrow> True | Inr _ \<Rightarrow> False)"

text \<open>
  Follows the specification's words, not the source: the log directory is a
  \<^emph>\<open>sub-path\<close> of the home directory when the components of the home directory, split
  at \<^verbatim>\<open>/\<close>, are the leading components of the log directory.
\<close>

fun components_from :: "string \<Rightarrow> string \<Rightarrow> string list" where
  "components_from cur [] = (if cur = [] then [] else [cur])"
| "components_from cur (c # cs) =
     (if c = CHR ''/'' then (if cur = [] then [] else [cur]) @ components_from [] cs
      else components_from (cur @ [c]) cs)"

definition subpath_of :: "string \<Rightarrow> string \<Rightarrow> bool" where
  "subpath_of home d = prefix (components_from [] home) (components_from [] d)"

definition logging_to :: "string \<Rightarrow> job" where
  "logging_to d = example_job\<lparr>log_directory := Some d\<rparr>"

definition raising_at :: "nat \<Rightarrow> py_exn \<Rightarrow> close_env" where
  "raising_at k ex =
     \<lparr>retire_workers = Inr (),
      query = (\<lambda>i. if i < k then Inr 1 else Inl ex),
      act = Inr \<lparr>TotalSuccess = 1, TotalChangedAds = 1\<rparr>\<rparr>"

definition query_fails :: "py_exn \<Rightarrow> close_env" where
  "query_fails ex =
     \<lparr>retire_workers = Inr (), query = (\<lambda>i. Inl ex),
      act = Inr \<lparr>TotalSuccess = 1, TotalChangedAds = 1\<rparr>\<rparr>"

section \<open>Properties\<close>

subsection \<open>Traces and the polling loop\<close>

lemma emit_emit: "emit (emit w xs) ys = emit w (xs @ ys)"
  by (simp add: emit_def)

lemma emit_Nil: "emit w [] = w"
  by (simp add: emit_def)

lemma polling_Suc: "polling jid (Suc n) = [Sleep 1, Query jid] @ polling jid n"
  by (simp add: polling_def)

lemma polls_Nil: "polls [] = 0"
  by (simp add: polls_def)

lemma polls_Cons: "polls (e # es) = (if is_poll e then 1 else 0) + polls es"
  by (simp add: polls_def)

lemma removals_Nil: "removals [] = 0"
  by (simp add: removals_def)

lemma removals_Cons: "removals (e # es) = (if is_removal e then 1 else 0) + removals es"
  by (simp add: removals_def)

lemma polls_append: "polls (xs @ ys) = polls xs + polls ys"
  by (simp add: polls_def)

lemma removals_append: "removals (xs @ ys) = removals xs + removals ys"
  by (simp add: removals_def)

lemma polls_polling: "polls (polling jid n) = n"
  by (induction n) (simp_all add: polling_def polls_def)

lemma removals_polling: "removals (polling jid n) = 0"
  by (induction n) (simp_all add: polling_def removals_def)

lemma polls_retirement: "polls (retirement j) = 0"
  by (simp add: retirement_def polls_def)

lemma removals_retirement: "removals (retirement j) = 0"
  by (simp add: retirement_def removals_def)

lemmas count_simps =
  polls_Cons polls_Nil polls_append polls_polling polls_retirement
  removals_Cons removals_Nil removals_append removals_polling removals_retirement

text \<open>
  The loop over any list of iterations: it runs out when every query returns rows,
  returns at the first query with zero rows, and is left by the first exception.
\<close>

lemma poll_loop_timeout:
  "\<forall>i \<in> set xs. \<exists>n. query env i = Inr (Suc n) \<Longrightarrow>
   poll_loop env xs (j, w) = (Inr False, j, emit w (polling (job_id j) (length xs)))"
proof (induction xs arbitrary: w)
  case Nil
  then show ?case by (simp add: polling_def emit_Nil)
next
  case (Cons i rest)
  then obtain n where "query env i = Inr (Suc n)" by auto
  then have "check_gone env i = Inr False" by (simp add: check_gone_def)
  with Cons show ?case
    by (simp add: emit_emit polling_Suc)
qed

lemma poll_loop_gone:
  "\<forall>i \<in> set xs. \<exists>n. query env i = Inr (Suc n) \<Longrightarrow> query env k = Inr 0 \<Longrightarrow>
   poll_loop env (xs @ k # rest) (j, w) =
     (Inr True, finish Gracefully_closed (j, emit w (polling (job_id j) (Suc (length xs)))))"
proof (induction xs arbitrary: w)
  case Nil
  then show ?case by (simp add: check_gone_def polling_def)
next
  case (Cons i more)
  then obtain n where "query env i = Inr (Suc n)" by auto
  then have "check_gone env i = Inr False" by (simp add: check_gone_def)
  with Cons show ?case
    by (simp add: emit_emit polling_Suc)
qed

lemma poll_loop_raise:
  "\<forall>i \<in> set xs. \<exists>n. query env i = Inr (Suc n) \<Longrightarrow> query env k = Inl ex \<Longrightarrow>
   poll_loop env (xs @ k # rest) (j, w) =
     (Inl ex, j, emit w (polling (job_id j) (Suc (length xs))))"
proof (induction xs arbitrary: w)
  case Nil
  then show ?case by (simp add: check_gone_def polling_def)
next
  case (Cons i more)
  then obtain n where "query env i = Inr (Suc n)" by auto
  then have "check_gone env i = Inr False" by (simp add: check_gone_def)
  with Cons show ?case
    by (simp add: emit_emit polling_Suc)
qed

lemma range_split: "k < n \<Longrightarrow> [0..<n] = [0..<k] @ k # [Suc k..<n]"
  by (metis less_imp_le_nat upt_add_eq_append upt_conv_Cons le0 le_add_diff_inverse)

text \<open>What the loop does to the registry, whatever the scheduler answers.\<close>

lemma poll_loop_registry:
  "poll_loop env xs (j, w) = (r, j', w') \<Longrightarrow>
     job_id j' = job_id j \<and>
     (r = Inr True \<longrightarrow> known_jobs w' = discard (job_id j) (known_jobs w)) \<and>
     (r \<noteq> Inr True \<longrightarrow> known_jobs w' = known_jobs w)"
proof (induction xs arbitrary: w)
  case Nil
  then show ?case by auto
next
  case (Cons i rest)
  show ?case
  proof (cases "check_gone env i")
    case (Inl ex)
    with Cons.prems show ?thesis by (auto simp: emit_def)
  next
    case (Inr gone)
    show ?thesis
    proof (cases gone)
      case True
      with Inr Cons.prems show ?thesis by (auto simp: finish_def emit_def)
    next
      case False
      with Inr Cons.prems
      have "poll_loop env rest (j, emit w [Sleep 1, Query (job_id j)]) = (r, j', w')"
        by simp
      from Cons.IH [OF this] show ?thesis by (simp add: emit_def)
    qed
  qed
qed

subsection \<open>The runs of \<^verbatim>\<open>close\<close>\<close>

lemma retire_returns:
  "cluster_bound j \<longrightarrow> retire_workers env = Inr () \<Longrightarrow>
   retire env (j, w) = (Inr (), emit w (retirement j))"
  by (simp add: retire_def retirement_def emit_emit emit_Nil Let_def)

lemma close_returns_graceful:
  assumes "k < 30"
    and "\<forall>i. i < k \<longrightarrow> (\<exists>n. query env i = Inr (Suc n))"
    and "query env k = Inr 0"
    and "cluster_bound j \<longrightarrow> retire_workers env = Inr ()"
  shows "close env (j, w) =
           (Inr Graceful,
            finish Gracefully_closed
              (j, emit w (Log INFO Closing_worker # retirement j @ polling (job_id j) (Suc k))))"
proof -
  have split: "[0..<30] = [0..<k] @ k # [Suc k..<30]"
    using assms(1) by (rule range_split)
  have "\<forall>i \<in> set [0..<k]. \<exists>n. query env i = Inr (Suc n)"
    using assms(2) by simp
  from poll_loop_gone [OF this assms(3)]
  have "poll_loop env [0..<30] (j, w1) =
          (Inr True, finish Gracefully_closed (j, emit w1 (polling (job_id j) (Suc k))))" for w1
    unfolding split by simp
  then show ?thesis
    by (simp add: close_def retire_returns [OF assms(4)] emit_emit finish_def)
qed

lemma close_left_by_query:
  assumes "k < 30"
    and "\<forall>i. i < k \<longrightarrow> (\<exists>n. query env i = Inr (Suc n))"
    and "query env k = Inl ex"
    and "cluster_bound j \<longrightarrow> retire_workers env = Inr ()"
  shows "close env (j, w) =
           (Inl ex, j, emit w (Log INFO Closing_worker # retirement j @ polling (job_id j) (Suc k)))"
proof -
  have split: "[0..<30] = [0..<k] @ k # [Suc k..<30]"
    using assms(1) by (rule range_split)
  have "\<forall>i \<in> set [0..<k]. \<exists>n. query env i = Inr (Suc n)"
    using assms(2) by simp
  from poll_loop_raise [OF this assms(3)]
  have "poll_loop env [0..<30] (j, w1) = (Inl ex, j, emit w1 (polling (job_id j) (Suc k)))" for w1
    unfolding split by simp
  then show ?thesis
    by (simp add: close_def retire_returns [OF assms(4)] emit_emit)
qed

lemma close_after_timeout:
  assumes "\<forall>i. i < 30 \<longrightarrow> (\<exists>n. query env i = Inr (Suc n))"
    and "cluster_bound j \<longrightarrow> retire_workers env = Inr ()"
  shows "close env (j, w) =
           (let w3 = emit w (Log INFO Closing_worker # retirement j @ polling (job_id j) 30 @
                        [Log INFO Reached_timeout, Act_Remove (job_id j)]) in
            case act env of
              Inl ex \<Rightarrow> (Inl ex, j, w3)
            | Inr res \<Rightarrow>
                if TotalSuccess res = 1 \<and> TotalChangedAds res = 1
                then (Inr Forced, finish Forcefully_closed (j, w3))
                else (Inr Forced_failed, j, emit w3 [Log ERROR Failed_to_forcefully_close]))"
proof -
  have "\<forall>i \<in> set [0..<30]. \<exists>n. query env i = Inr (Suc n)"
    using assms(1) by simp
  from poll_loop_timeout [OF this]
  have "poll_loop env [0..<30] (j, w1) = (Inr False, j, emit w1 (polling (job_id j) 30))" for w1
    by simp
  then show ?thesis
    by (simp add: close_def retire_returns [OF assms(2)] emit_emit stop_def Let_def
        split: sum.split)
qed

lemma close_registry:
  assumes "close env (j, w) = (Inr p, j', w')" and "p \<noteq> Forced_failed"
  shows "known_jobs w' = discard (job_id j) (known_jobs w)"
proof -
  obtain r0 w1 where ret: "retire env (j, emit w [Log INFO Closing_worker]) = (r0, w1)"
    by (cases "retire env (j, emit w [Log INFO Closing_worker])")
  have kj1: "known_jobs w1 = known_jobs w"
    using ret by (auto simp: retire_def emit_def Let_def split: if_splits sum.splits)
  obtain r2 j2 w2 where pl: "poll_loop env [0..<30] (j, w1) = (r2, j2, w2)"
    by (cases "poll_loop env [0..<30] (j, w1)")
  note reg = poll_loop_registry [OF pl]
  show ?thesis
    using assms ret pl reg kj1
    by (auto simp: close_def Let_def finish_def emit_def split: sum.splits bool.splits if_splits)
qed

subsection \<open>The runs of \<^verbatim>\<open>start\<close>\<close>

lemma start_registers_eq:
  assumes "queue_txn senv = Inr cid" and "spool senv = Inr ()" and "cid \<noteq> 0"
  shows "start senv (j, w) =
           (Inr (), j\<lparr>job_id := Some cid, status := running\<rparr>,
            w\<lparr>known_jobs := insert cid (known_jobs w), finalizers := finalizers w @ [cid],
              trace := trace w @ [Log INFO Starting_worker, Transaction_queue,
                                  Log DEBUG ClassAds_for_job, Spool, Log INFO Starting_job]\<rparr>)"
  using assms by (simp add: start_def sub_def emit_def Let_def)

lemma start_zero_eq:
  assumes "queue_txn senv = Inr 0" and "spool senv = Inr ()"
  shows "start senv (j, w) =
     (Inr (), j\<lparr>job_id := Some 0\<rparr>,
      emit w [Log INFO Starting_worker, Transaction_queue, Log DEBUG ClassAds_for_job, Spool])"
  using assms by (simp add: start_def sub_def emit_def Let_def)

lemma start_caught_eq:
  assumes "queue_txn senv = Inl (HTCondorInternalError m) \<or>
           (\<exists>cid. queue_txn senv = Inr cid \<and> spool senv = Inl (HTCondorInternalError m))"
  shows "\<exists>es. start senv (j, w) =
           (Inr (), j\<lparr>job_id := None\<rparr>, emit w (es @ [Log ERROR (Submit_error m)]))"
proof -
  from assms consider
    (q) "queue_txn senv = Inl (HTCondorInternalError m)"
  | (s) cid where "queue_txn senv = Inr cid" "spool senv = Inl (HTCondorInternalError m)"
    by blast
  then show ?thesis
  proof cases
    case q
    then have "start senv (j, w) =
           (Inr (), j\<lparr>job_id := None\<rparr>,
            emit w ([Log INFO Starting_worker, Transaction_queue] @ [Log ERROR (Submit_error m)]))"
      by (simp add: start_def sub_def emit_def Let_def)
    then show ?thesis by blast
  next
    case s
    then have "start senv (j, w) =
           (Inr (), j\<lparr>job_id := None\<rparr>,
            emit w ([Log INFO Starting_worker, Transaction_queue, Log DEBUG ClassAds_for_job, Spool]
                    @ [Log ERROR (Submit_error m)]))"
      by (simp add: start_def sub_def emit_def Let_def)
    then show ?thesis by blast
  qed
qed

lemma start_other_error_eq:
  assumes "queue_txn senv = Inl ex \<or> (\<exists>cid. queue_txn senv = Inr cid \<and> spool senv = Inl ex)"
    and "\<forall>m. ex \<noteq> HTCondorInternalError m"
  shows "fst (start senv (j, w)) = Inl ex"
proof -
  have e: "except_internal ex w1 = (Inl ex, w1)" for w1
    using assms(2) by (cases ex) simp_all
  from assms(1) show ?thesis
    by (auto simp: start_def sub_def Let_def e)
qed

subsection \<open>Registry membership after \<^verbatim>\<open>start\<close> and \<^verbatim>\<open>close\<close>\<close>


text \<open>
  For every other cluster id the property holds. When the submit transaction returns a
  cluster id other than 0 and the spool call returns, \<^verbatim>\<open>start\<close> returns normally, the
  id is the controller's \<open>job_id\<close> and it is a member of \<open>known_jobs\<close>. For a controller
  holding that id, in any process state and against any scheduler, a \<^verbatim>\<open>close\<close> that
  returns through the graceful exit or through the exit after a successful forced
  removal leaves the id outside \<open>known_jobs\<close>.
\<close>

lemma registry_after_start_and_close:
  assumes "queue_txn senv = Inr cid" and "spool senv = Inr ()" and "cid \<noteq> 0"
  shows "(case start senv (j, w) of (r, j', w') \<Rightarrow>
            r = Inr () \<and> job_id j' = Some cid \<and> cid \<in> known_jobs w') \<and>
         (\<forall>cenv jc wc p j2 w2.
            job_id jc = Some cid \<longrightarrow> close cenv (jc, wc) = (Inr p, j2, w2) \<longrightarrow>
            p \<noteq> Forced_failed \<longrightarrow> cid \<notin> known_jobs w2)"
proof (intro conjI allI impI)
  show "case start senv (j, w) of (r, j', w') \<Rightarrow>
          r = Inr () \<and> job_id j' = Some cid \<and> cid \<in> known_jobs w'"
    by (simp add: start_registers_eq [OF assms])
next
  fix cenv jc wc p j2 w2
  assume "job_id jc = Some cid" and "close cenv (jc, wc) = (Inr p, j2, w2)"
    and "p \<noteq> Forced_failed"
  then show "cid \<notin> known_jobs w2"
    using close_registry [of cenv jc wc p j2 w2] by simp
qed

text \<open>
  At cluster id 7, closed against a scheduler that reports the job gone at the third
  query.
\<close>

lemma registry_after_start_and_close_example:
  "queue_txn \<lparr>queue_txn = Inr 7, spool = Inr ()\<rparr> = Inr 7 \<and>
   spool \<lparr>queue_txn = Inr 7, spool = Inr ()\<rparr> = Inr () \<and> (7::int) \<noteq> 0 \<and>
   7 \<in> known_jobs (snd (snd (start \<lparr>queue_txn = Inr 7, spool = Inr ()\<rparr> (example_job, example_world)))) \<and>
   fst (close (gone_at 2) (snd (start \<lparr>queue_txn = Inr 7, spool = Inr ()\<rparr> (example_job, example_world))))
     = Inr Graceful \<and>
   7 \<notin> known_jobs (snd (snd (close (gone_at 2)
          (snd (start \<lparr>queue_txn = Inr 7, spool = Inr ()\<rparr> (example_job, example_world))))))"
proof -
  let ?senv = "\<lparr>queue_txn = Inr (7::int), spool = Inr ()\<rparr>"
  let ?s = "start ?senv (example_job, example_world)"
  have h1: "queue_txn ?senv = Inr 7" by simp
  have h2: "spool ?senv = Inr ()" by simp
  have h3: "(7::int) \<noteq> 0" by simp
  note main = registry_after_start_and_close [OF h1 h2 h3, of example_job example_world]
  obtain r j' w' where s: "?s = (r, j', w')" by (cases ?s)
  from main s have a: "job_id j' = Some 7" and b: "7 \<in> known_jobs w'" by auto
  have g: "close (gone_at 2) (j', w') =
             (Inr Graceful,
              finish Gracefully_closed
                (j', emit w' (Log INFO Closing_worker # retirement j' @ polling (job_id j') (Suc 2))))"
    by (rule close_returns_graceful) (auto simp: gone_at_def)
  obtain j2 w2 where c: "close (gone_at 2) (j', w') = (Inr Graceful, j2, w2)"
    using g by (cases "finish Gracefully_closed
                (j', emit w' (Log INFO Closing_worker # retirement j' @ polling (job_id j') (Suc 2)))") simp
  from main a c have "7 \<notin> known_jobs w2" by blast
  with b c s h3 show ?thesis by simp
qed

subsection \<open>Graceful close\<close>

text \<open>
  C2. Let \<open>1 \<le> k \<le> 30\<close>. If the queries of the first \<open>k - 1\<close> iterations return rows
  and the query of iteration \<open>k\<close> (index \<open>k - 1\<close> of \<^verbatim>\<open>range(30)\<close>) returns none, and the
  retirement request, when there is one, returns, then \<^verbatim>\<open>close\<close> returns through the
  graceful exit: the id is discarded from \<open>known_jobs\<close>, the status is \<open>closed\<close>, the
  finished event is set, exactly \<open>k\<close> queries were made and no remove action was sent.
\<close>

theorem close_graceful:
  assumes "1 \<le> k" and "k \<le> 30"
    and "\<forall>i. i < k - 1 \<longrightarrow> (\<exists>n. query env i = Inr (Suc n))"
    and "query env (k - 1) = Inr 0"
    and "cluster_bound j \<longrightarrow> retire_workers env = Inr ()"
  shows "case close env (j, w) of (r, j', w') \<Rightarrow>
           r = Inr Graceful \<and>
           known_jobs w' = discard (job_id j) (known_jobs w) \<and>
           (\<forall>i. job_id j = Some i \<longrightarrow> i \<notin> known_jobs w') \<and>
           status j' = closed \<and>
           event_finished j' \<and>
           polls (trace w') = polls (trace w) + k \<and>
           removals (trace w') = removals (trace w)"
proof -
  from assms(1,2) have lt: "k - 1 < 30" and suc: "Suc (k - 1) = k" by simp_all
  have eq: "close env (j, w) =
              (Inr Graceful,
               finish Gracefully_closed
                 (j, emit w (Log INFO Closing_worker # retirement j @ polling (job_id j) k)))"
    using close_returns_graceful [OF lt assms(3) assms(4) assms(5), of w] by (simp only: suc)
  have p: "polls (Log INFO Closing_worker # retirement j @ polling (job_id j) k @
                  [Log INFO Gracefully_closed]) = k"
    by (simp add: count_simps)
  have r: "removals (Log INFO Closing_worker # retirement j @ polling (job_id j) k @
                  [Log INFO Gracefully_closed]) = 0"
    by (simp add: count_simps)
  have t: "trace (snd (finish Gracefully_closed
                 (j, emit w (Log INFO Closing_worker # retirement j @ polling (job_id j) k)))) =
           trace w @ (Log INFO Closing_worker # retirement j @ polling (job_id j) k @
                  [Log INFO Gracefully_closed])"
    by (simp add: finish_def emit_def)
  show ?thesis
    unfolding eq
    apply (simp only: prod.case)
    apply (simp add: case_prod_beta t polls_append removals_append p r)
    apply (cases "job_id j"; simp add: finish_def emit_def)
    done
qed

text \<open>The theorem at \<open>k = 3\<close>, for a controller holding id 7.\<close>

theorem close_graceful_witness:
  "(1::nat) \<le> 3 \<and> (3::nat) \<le> 30 \<and>
   query (gone_at 2) 0 = Inr 1 \<and> query (gone_at 2) 1 = Inr 1 \<and>
   query (gone_at 2) (3 - 1) = Inr 0 \<and>
   cluster_bound example_job \<and> retire_workers (gone_at 2) = Inr () \<and>
   (case close (gone_at 2) (example_job\<lparr>job_id := Some 7\<rparr>, example_world\<lparr>known_jobs := {7}\<rparr>) of
      (r, j', w') \<Rightarrow>
        r = Inr Graceful \<and> 7 \<notin> known_jobs w' \<and> status j' = closed \<and> event_finished j' \<and>
        polls (trace w') = 3 \<and> removals (trace w') = 0)"
proof -
  have h1: "(1::nat) \<le> 3" and h2: "(3::nat) \<le> 30" by simp_all
  have h3: "\<forall>i. i < 3 - 1 \<longrightarrow> (\<exists>n. query (gone_at 2) i = Inr (Suc n))"
    by (simp add: gone_at_def)
  have h4: "query (gone_at 2) (3 - 1) = Inr 0"
    by (simp add: gone_at_def)
  have h5: "cluster_bound (example_job\<lparr>job_id := Some 7\<rparr>) \<longrightarrow> retire_workers (gone_at 2) = Inr ()"
    by (simp add: gone_at_def)
  have h6: "query (gone_at 2) 0 = Inr 1 \<and> query (gone_at 2) 1 = Inr 1 \<and>
            cluster_bound example_job \<and> retire_workers (gone_at 2) = Inr ()"
    by (simp add: gone_at_def example_job_def)
  from close_graceful [OF h1 h2 h3 h4 h5, of "example_world\<lparr>known_jobs := {7}\<rparr>"]
  have "case close (gone_at 2) (example_job\<lparr>job_id := Some 7\<rparr>, example_world\<lparr>known_jobs := {7}\<rparr>) of
      (r, j', w') \<Rightarrow>
        r = Inr Graceful \<and> 7 \<notin> known_jobs w' \<and> status j' = closed \<and> event_finished j' \<and>
        polls (trace w') = 3 \<and> removals (trace w') = 0"
    by (auto simp: example_world_def polls_Nil removals_Nil)
  with h1 h2 h4 h6 show ?thesis by blast
qed

subsection \<open>Forced close\<close>

text \<open>
  C3. If every one of the 30 queries returns rows (and the retirement request, when there
  is one, returns), then \<^verbatim>\<open>close\<close> makes exactly 30 queries, all of them before the
  one remove action it sends for the controller's id, and sends no other; and the run
  ends in the exit of a successful forced removal exactly when the action returns a
  result with \<open>TotalSuccess = 1\<close> and \<open>TotalChangedAds = 1\<close>.
\<close>

theorem close_forced:
  assumes "\<forall>i. i < 30 \<longrightarrow> (\<exists>n. query env i = Inr (Suc n))"
    and "cluster_bound j \<longrightarrow> retire_workers env = Inr ()"
  shows "case close env (j, w) of (r, j', w') \<Rightarrow>
           (\<exists>before after.
              trace w' = trace w @ before @ [Act_Remove (job_id j)] @ after \<and>
              polls before = 30 \<and> removals before = 0 \<and>
              polls after = 0 \<and> removals after = 0) \<and>
           polls (trace w') = polls (trace w) + 30 \<and>
           removals (trace w') = removals (trace w) + 1 \<and>
           (r = Inr Forced \<longleftrightarrow>
              (\<exists>res. act env = Inr res \<and> TotalSuccess res = 1 \<and> TotalChangedAds res = 1))"
proof -
  let ?before = "Log INFO Closing_worker # retirement j @ polling (job_id j) 30 @
                   [Log INFO Reached_timeout]"
  let ?w3 = "emit w (Log INFO Closing_worker # retirement j @ polling (job_id j) 30 @
                       [Log INFO Reached_timeout, Act_Remove (job_id j)])"
  have b: "polls ?before = 30" "removals ?before = 0"
    by (simp_all add: count_simps)
  have t3: "trace ?w3 = trace w @ ?before @ [Act_Remove (job_id j)] @ []"
    by (simp add: emit_def)
  note eq = close_after_timeout [OF assms, of w]
  show ?thesis
  proof (cases "act env")
    case (Inl ex)
    then have c: "close env (j, w) = (Inl ex, j, ?w3)"
      using eq by (simp add: Let_def)
    have "\<exists>before after.
              trace ?w3 = trace w @ before @ [Act_Remove (job_id j)] @ after \<and>
              polls before = 30 \<and> removals before = 0 \<and>
              polls after = 0 \<and> removals after = 0"
      using t3 b polls_Nil removals_Nil by blast
    moreover have "polls (trace ?w3) = polls (trace w) + 30" "removals (trace ?w3) = removals (trace w) + 1"
      by (simp_all add: t3 count_simps)
    ultimately show ?thesis
      unfolding c using Inl by simp
  next
    case (Inr res)
    show ?thesis
    proof (cases "TotalSuccess res = 1 \<and> TotalChangedAds res = 1")
      case True
      let ?f = "finish Forcefully_closed (j, ?w3)"
      have c: "close env (j, w) = (Inr Forced, fst ?f, snd ?f)"
        using eq Inr True by (simp add: Let_def)
      have tf: "trace (snd ?f) = trace w @ ?before @ [Act_Remove (job_id j)] @ [Log INFO Forcefully_closed]"
        by (simp add: finish_def emit_def)
      have "\<exists>before after.
              trace (snd ?f) = trace w @ before @ [Act_Remove (job_id j)] @ after \<and>
              polls before = 30 \<and> removals before = 0 \<and>
              polls after = 0 \<and> removals after = 0"
      proof (intro exI conjI)
        show "trace (snd ?f) = trace w @ ?before @ [Act_Remove (job_id j)] @ [Log INFO Forcefully_closed]"
          by (rule tf)
      qed (simp_all add: count_simps)
      moreover have "polls (trace (snd ?f)) = polls (trace w) + 30"
        "removals (trace (snd ?f)) = removals (trace w) + 1"
        by (simp_all add: tf count_simps)
      ultimately show ?thesis
        unfolding c using Inr True by (simp add: case_prod_beta)
    next
      case False
      let ?w4 = "emit ?w3 [Log ERROR Failed_to_forcefully_close]"
      have c: "close env (j, w) = (Inr Forced_failed, j, ?w4)"
        using eq Inr False by (simp add: Let_def)
      have tf: "trace ?w4 = trace w @ ?before @ [Act_Remove (job_id j)] @ [Log ERROR Failed_to_forcefully_close]"
        by (simp add: emit_def)
      have "\<exists>before after.
              trace ?w4 = trace w @ before @ [Act_Remove (job_id j)] @ after \<and>
              polls before = 30 \<and> removals before = 0 \<and>
              polls after = 0 \<and> removals after = 0"
      proof (intro exI conjI)
        show "trace ?w4 = trace w @ ?before @ [Act_Remove (job_id j)] @ [Log ERROR Failed_to_forcefully_close]"
          by (rule tf)
      qed (simp_all add: count_simps)
      moreover have "polls (trace ?w4) = polls (trace w) + 30"
        "removals (trace ?w4) = removals (trace w) + 1"
        by (simp_all add: tf count_simps)
      ultimately show ?thesis
        unfolding c using Inr False by auto
    qed
  qed
qed

text \<open>The theorem against a scheduler that never reports the job gone and removes it.\<close>

theorem close_forced_witness:
  "(\<forall>i. query (never_gone (Inr \<lparr>TotalSuccess = 1, TotalChangedAds = 1\<rparr>)) i = Inr (Suc 0)) \<and>
   cluster_bound example_job \<and>
   retire_workers (never_gone (Inr \<lparr>TotalSuccess = 1, TotalChangedAds = 1\<rparr>)) = Inr () \<and>
   (case close (never_gone (Inr \<lparr>TotalSuccess = 1, TotalChangedAds = 1\<rparr>)) (example_job, example_world) of
      (r, j', w') \<Rightarrow> polls (trace w') = 30 \<and> removals (trace w') = 1 \<and> r = Inr Forced)"
proof -
  let ?env = "never_gone (Inr \<lparr>TotalSuccess = 1, TotalChangedAds = 1\<rparr>)"
  have h1: "\<forall>i. i < 30 \<longrightarrow> (\<exists>n. query ?env i = Inr (Suc n))"
    by (simp add: never_gone_def)
  have h2: "cluster_bound example_job \<longrightarrow> retire_workers ?env = Inr ()"
    by (simp add: never_gone_def)
  have a: "act ?env = Inr \<lparr>TotalSuccess = 1, TotalChangedAds = 1\<rparr>"
    by (simp add: never_gone_def)
  have h3: "(\<forall>i. query ?env i = Inr (Suc 0)) \<and> cluster_bound example_job \<and>
            retire_workers ?env = Inr ()"
    by (simp add: never_gone_def example_job_def)
  from close_forced [OF h1 h2, of example_world]
  have "case close ?env (example_job, example_world) of
      (r, j', w') \<Rightarrow> polls (trace w') = 30 \<and> removals (trace w') = 1 \<and> r = Inr Forced"
    by (auto simp: a example_world_def polls_Nil removals_Nil)
  with h3 show ?thesis by blast
qed

text \<open>
  C5. If the 30 queries all return rows and the remove action returns a result that is
  not \<open>TotalSuccess = 1\<close> and \<open>TotalChangedAds = 1\<close>, then \<^verbatim>\<open>close\<close> ends with the error
  log entry and changes nothing else: \<open>known_jobs\<close> is as before (the id stays in it),
  the controller is as before (status not set to \<open>closed\<close>, finished event not set), and
  the run sent exactly one remove action.
\<close>

theorem close_forced_removal_failed:
  assumes "\<forall>i. i < 30 \<longrightarrow> (\<exists>n. query env i = Inr (Suc n))"
    and "cluster_bound j \<longrightarrow> retire_workers env = Inr ()"
    and "act env = Inr res"
    and "\<not> (TotalSuccess res = 1 \<and> TotalChangedAds res = 1)"
  shows "case close env (j, w) of (r, j', w') \<Rightarrow>
           r = Inr Forced_failed \<and>
           last (trace w') = Log ERROR Failed_to_forcefully_close \<and>
           known_jobs w' = known_jobs w \<and>
           j' = j \<and> status j' = status j \<and> event_finished j' = event_finished j \<and>
           removals (trace w') = removals (trace w) + 1"
proof -
  let ?w3 = "emit w (Log INFO Closing_worker # retirement j @ polling (job_id j) 30 @
                       [Log INFO Reached_timeout, Act_Remove (job_id j)])"
  let ?w4 = "emit ?w3 [Log ERROR Failed_to_forcefully_close]"
  have c: "close env (j, w) = (Inr Forced_failed, j, ?w4)"
    using close_after_timeout [OF assms(1,2), of w] assms(3,4) by (simp add: Let_def)
  have "removals (trace ?w4) = removals (trace w) + 1"
    by (simp add: emit_def count_simps)
  then show ?thesis
    unfolding c by (simp add: emit_def)
qed

text \<open>
  The theorem for a running controller holding id 7 and a remove action that matches
  nothing.
\<close>

theorem close_forced_removal_failed_witness:
  "(\<forall>i. query (never_gone (Inr \<lparr>TotalSuccess = 0, TotalChangedAds = 0\<rparr>)) i = Inr (Suc 0)) \<and>
   cluster_bound example_job \<and>
   retire_workers (never_gone (Inr \<lparr>TotalSuccess = 0, TotalChangedAds = 0\<rparr>)) = Inr () \<and>
   act (never_gone (Inr \<lparr>TotalSuccess = 0, TotalChangedAds = 0\<rparr>)) = Inr \<lparr>TotalSuccess = 0, TotalChangedAds = 0\<rparr> \<and>
   \<not> (TotalSuccess \<lparr>TotalSuccess = 0, TotalChangedAds = 0\<rparr> = 1 \<and>
      TotalChangedAds \<lparr>TotalSuccess = 0, TotalChangedAds = 0\<rparr> = 1) \<and>
   (case close (never_gone (Inr \<lparr>TotalSuccess = 0, TotalChangedAds = 0\<rparr>))
           (example_job\<lparr>job_id := Some 7, status := running\<rparr>, example_world\<lparr>known_jobs := {7}\<rparr>) of
      (r, j', w') \<Rightarrow>
        r = Inr Forced_failed \<and> 7 \<in> known_jobs w' \<and> status j' = running \<and> \<not> event_finished j' \<and>
        removals (trace w') = 1)"
proof -
  let ?res = "\<lparr>TotalSuccess = 0, TotalChangedAds = 0\<rparr>"
  let ?env = "never_gone (Inr ?res)"
  let ?j = "example_job\<lparr>job_id := Some 7, status := running\<rparr>"
  have h1: "\<forall>i. i < 30 \<longrightarrow> (\<exists>n. query ?env i = Inr (Suc n))"
    by (simp add: never_gone_def)
  have h2: "cluster_bound ?j \<longrightarrow> retire_workers ?env = Inr ()"
    by (simp add: never_gone_def)
  have h5: "(\<forall>i. query ?env i = Inr (Suc 0)) \<and> cluster_bound example_job \<and>
            retire_workers ?env = Inr ()"
    by (simp add: never_gone_def example_job_def)
  have h3: "act ?env = Inr ?res"
    by (simp add: never_gone_def)
  have h4: "\<not> (TotalSuccess ?res = 1 \<and> TotalChangedAds ?res = 1)"
    by simp
  from close_forced_removal_failed [OF h1 h2 h3 h4, of "example_world\<lparr>known_jobs := {7}\<rparr>"]
  have "case close ?env (?j, example_world\<lparr>known_jobs := {7}\<rparr>) of
      (r, j', w') \<Rightarrow>
        r = Inr Forced_failed \<and> 7 \<in> known_jobs w' \<and> status j' = running \<and> \<not> event_finished j' \<and>
        removals (trace w') = 1"
    by (auto simp: example_world_def example_job_def removals_Nil)
  with h5 h3 h4 show ?thesis by blast
qed

subsection \<open>Failed submission\<close>

text \<open>
  C4, as amended. If the submit transaction, or after it the spool call, raises
  \<^verbatim>\<open>HTCondorInternalError\<close>, then \<^verbatim>\<open>start\<close> returns normally with \<open>job_id = None\<close>,
  \<open>known_jobs\<close> and the registered finalizers are as before, the last trace entry is the
  error log, and the status is left as it was before the call.
\<close>

theorem start_internal_error:
  assumes "queue_txn senv = Inl (HTCondorInternalError m) \<or>
           (\<exists>cid. queue_txn senv = Inr cid \<and> spool senv = Inl (HTCondorInternalError m))"
  shows "case start senv (j, w) of (r, j', w') \<Rightarrow>
           r = Inr () \<and> job_id j' = None \<and>
           known_jobs w' = known_jobs w \<and>
           finalizers w' = finalizers w \<and>
           status j' = status j \<and>
           last (trace w') = Log ERROR (Submit_error m)"
proof -
  from start_caught_eq [OF assms] obtain es where
    "start senv (j, w) = (Inr (), j\<lparr>job_id := None\<rparr>, emit w (es @ [Log ERROR (Submit_error m)]))"
    by blast
  then show ?thesis by (simp add: emit_def)
qed

text \<open>The theorem for a transaction that raises, on a controller in status \<open>created\<close>.\<close>

theorem start_internal_error_witness:
  "(queue_txn \<lparr>queue_txn = Inl (HTCondorInternalError ''schedd''), spool = Inr ()\<rparr>
      = Inl (HTCondorInternalError ''schedd'') \<or>
    (\<exists>cid. queue_txn \<lparr>queue_txn = Inl (HTCondorInternalError ''schedd''), spool = Inr ()\<rparr> = Inr cid \<and>
           spool \<lparr>queue_txn = Inl (HTCondorInternalError ''schedd''), spool = Inr ()\<rparr>
             = Inl (HTCondorInternalError ''schedd''))) \<and>
   (case start \<lparr>queue_txn = Inl (HTCondorInternalError ''schedd''), spool = Inr ()\<rparr>
           (example_job, example_world) of
      (r, j', w') \<Rightarrow>
        r = Inr () \<and> job_id j' = None \<and> known_jobs w' = {} \<and> finalizers w' = [] \<and>
        status j' = created)"
proof -
  let ?senv = "\<lparr>queue_txn = Inl (HTCondorInternalError ''schedd''), spool = Inr ()\<rparr>"
  have h: "queue_txn ?senv = Inl (HTCondorInternalError ''schedd'') \<or>
           (\<exists>cid. queue_txn ?senv = Inr cid \<and> spool ?senv = Inl (HTCondorInternalError ''schedd''))"
    by simp
  from start_internal_error [OF h, where j = example_job and w = example_world]
  have "case start ?senv (example_job, example_world) of
      (r, j', w') \<Rightarrow>
        r = Inr () \<and> job_id j' = None \<and> known_jobs w' = {} \<and> finalizers w' = [] \<and>
        status j' = created"
    by (auto simp: example_world_def example_job_def)
  with h show ?thesis by blast
qed

text \<open>
  The status does not become \<open>failed\<close>: a controller in status \<open>created\<close> is still in
  status \<open>created\<close> after the failed submission.
\<close>

theorem start_failure_status_counterexample:
  "status example_job = created \<and>
   status (fst (snd (start \<lparr>queue_txn = Inl (HTCondorInternalError ''schedd''), spool = Inr ()\<rparr>
                      (example_job, example_world)))) = created \<and>
   status (fst (snd (start \<lparr>queue_txn = Inl (HTCondorInternalError ''schedd''), spool = Inr ()\<rparr>
                      (example_job, example_world)))) \<noteq> failed"
proof -
  let ?senv = "\<lparr>queue_txn = Inl (HTCondorInternalError ''schedd''), spool = Inr ()\<rparr>"
  have "queue_txn ?senv = Inl (HTCondorInternalError ''schedd'') \<or>
           (\<exists>cid. queue_txn ?senv = Inr cid \<and> spool ?senv = Inl (HTCondorInternalError ''schedd''))"
    by simp
  from start_caught_eq [OF this, where j = example_job and w = example_world]
  show ?thesis by (auto simp: example_job_def)
qed

text \<open>
  C9. When the submit transaction and the spool call both return and the cluster id is 0,
  \<^verbatim>\<open>start\<close> takes the branch of a failed submission, because \<^verbatim>\<open>if self.job_id:\<close> tests
  truthiness: \<open>known_jobs\<close> and the registered finalizers are as before, the status is as
  before (not set to \<open>running\<close>), and the trace ends with the spool call, without the
  entry "Starting job". Only the value 0 left in \<open>job_id\<close> tells the run from one in which
  \<^verbatim>\<open>sub\<close> returned \<^verbatim>\<open>None\<close>.
\<close>

theorem start_cluster_id_zero:
  "case start \<lparr>queue_txn = Inr 0, spool = Inr ()\<rparr> (j, w) of (r, j', w') \<Rightarrow>
     r = Inr () \<and> job_id j' = Some 0 \<and>
     known_jobs w' = known_jobs w \<and>
     finalizers w' = finalizers w \<and>
     status j' = status j \<and>
     trace w' = trace w @ [Log INFO Starting_worker, Transaction_queue,
                           Log DEBUG ClassAds_for_job, Spool]"
proof -
  have "start \<lparr>queue_txn = Inr 0, spool = Inr ()\<rparr> (j, w) =
     (Inr (), j\<lparr>job_id := Some 0\<rparr>,
      emit w [Log INFO Starting_worker, Transaction_queue, Log DEBUG ClassAds_for_job, Spool])"
    by (rule start_zero_eq) simp_all
  then show ?thesis by (simp add: emit_def)
qed

subsection \<open>Which failures are caught\<close>

text \<open>
  C6, as amended. Of the blocking scheduler calls, only those of \<^verbatim>\<open>start\<close> have a
  handler, for one class. In \<^verbatim>\<open>start\<close>, an \<^verbatim>\<open>HTCondorInternalError\<close> raised by the
  submit transaction or by the spool call is caught and turned into an error log entry,
  and \<^verbatim>\<open>start\<close> returns normally; an exception of any other class raised there ends
  \<^verbatim>\<open>start\<close> with that exception. In \<^verbatim>\<open>close\<close>, an exception raised by any of the 30
  queries (the earlier ones having returned rows), or by the remove action after 30
  queries with rows, ends \<^verbatim>\<open>close\<close> with that exception: nothing is logged for it, and
  the registry and the controller are left as they were. In the finalizer
  \<^verbatim>\<open>_close_job\<close>, for an id still in \<open>known_jobs\<close>, an exception raised by the remove
  action ends the call with that exception, after the warning and with nothing logged
  for the failure, and the id stays in \<open>known_jobs\<close>.
\<close>

theorem scheduler_failures_caught_in_start_only:
  "((queue_txn senv = Inl (HTCondorInternalError m) \<or>
     (\<exists>cid. queue_txn senv = Inr cid \<and> spool senv = Inl (HTCondorInternalError m))) \<longrightarrow>
      fst (start senv (j, w)) = Inr () \<and>
      last (trace (snd (snd (start senv (j, w))))) = Log ERROR (Submit_error m)) \<and>
   ((queue_txn senv = Inl ex \<or> (\<exists>cid. queue_txn senv = Inr cid \<and> spool senv = Inl ex)) \<and>
    (\<forall>m. ex \<noteq> HTCondorInternalError m) \<longrightarrow>
      fst (start senv (j, w)) = Inl ex) \<and>
   (k < 30 \<and> (\<forall>i. i < k \<longrightarrow> (\<exists>n. query env i = Inr (Suc n))) \<and> query env k = Inl ex \<and>
    (cluster_bound j \<longrightarrow> retire_workers env = Inr ()) \<longrightarrow>
      close env (j, w) =
        (Inl ex, j,
         emit w (Log INFO Closing_worker # retirement j @ polling (job_id j) (Suc k)))) \<and>
   ((\<forall>i. i < 30 \<longrightarrow> (\<exists>n. query env i = Inr (Suc n))) \<and> act env = Inl ex \<and>
    (cluster_bound j \<longrightarrow> retire_workers env = Inr ()) \<longrightarrow>
      close env (j, w) =
        (Inl ex, j,
         emit w (Log INFO Closing_worker # retirement j @ polling (job_id j) 30 @
                 [Log INFO Reached_timeout, Act_Remove (job_id j)]))) \<and>
   (jid \<in> known_jobs w \<longrightarrow>
      close_job (Inl ex) jid w =
        (Inl ex, emit w [Log WARNING Last_ditch_attempt, Act_Remove (Some jid)]) \<and>
      jid \<in> known_jobs (snd (close_job (Inl ex) jid w)))"
proof (intro conjI impI)
  assume a: "queue_txn senv = Inl (HTCondorInternalError m) \<or>
     (\<exists>cid. queue_txn senv = Inr cid \<and> spool senv = Inl (HTCondorInternalError m))"
  from start_caught_eq [OF a, where j = j and w = w] obtain es where
    eq: "start senv (j, w) =
           (Inr (), j\<lparr>job_id := None\<rparr>, emit w (es @ [Log ERROR (Submit_error m)]))"
    by blast
  show "fst (start senv (j, w)) = Inr ()"
    by (simp add: eq)
  show "last (trace (snd (snd (start senv (j, w))))) = Log ERROR (Submit_error m)"
    by (simp add: eq emit_def)
next
  assume "(queue_txn senv = Inl ex \<or> (\<exists>cid. queue_txn senv = Inr cid \<and> spool senv = Inl ex)) \<and>
    (\<forall>m. ex \<noteq> HTCondorInternalError m)"
  then show "fst (start senv (j, w)) = Inl ex"
    using start_other_error_eq by blast
next
  assume "k < 30 \<and> (\<forall>i. i < k \<longrightarrow> (\<exists>n. query env i = Inr (Suc n))) \<and> query env k = Inl ex \<and>
    (cluster_bound j \<longrightarrow> retire_workers env = Inr ())"
  then show "close env (j, w) =
        (Inl ex, j,
         emit w (Log INFO Closing_worker # retirement j @ polling (job_id j) (Suc k)))"
    using close_left_by_query [of k env ex j w] by blast
next
  assume a: "(\<forall>i. i < 30 \<longrightarrow> (\<exists>n. query env i = Inr (Suc n))) \<and> act env = Inl ex \<and>
    (cluster_bound j \<longrightarrow> retire_workers env = Inr ())"
  then have "\<forall>i. i < 30 \<longrightarrow> (\<exists>n. query env i = Inr (Suc n))"
    and "cluster_bound j \<longrightarrow> retire_workers env = Inr ()" and act: "act env = Inl ex"
    by blast+
  from close_after_timeout [OF this(1,2), of w] act
  show "close env (j, w) =
        (Inl ex, j,
         emit w (Log INFO Closing_worker # retirement j @ polling (job_id j) 30 @
                 [Log INFO Reached_timeout, Act_Remove (job_id j)]))"
    by (simp add: Let_def)
next
  assume "jid \<in> known_jobs w"
  then show "close_job (Inl ex) jid w =
        (Inl ex, emit w [Log WARNING Last_ditch_attempt, Act_Remove (Some jid)])"
    by (simp add: close_job_def Let_def)
next
  assume "jid \<in> known_jobs w"
  then show "jid \<in> known_jobs (snd (close_job (Inl ex) jid w))"
    by (simp add: close_job_def Let_def emit_def)
qed

text \<open>
  The theorem at a spool call that raises \<^verbatim>\<open>HTCondorInternalError\<close>, at a transaction that
  raises \<^verbatim>\<open>HTCondorIOError\<close>, at a third query that raises, at a remove action that
  raises after 30 queries with rows, and at a finalizer whose remove action raises.
\<close>

theorem scheduler_failures_caught_in_start_only_witness:
  "fst (start \<lparr>queue_txn = Inr 7, spool = Inl (HTCondorInternalError ''spool'')\<rparr>
          (example_job, example_world)) = Inr () \<and>
   last (trace (snd (snd (start \<lparr>queue_txn = Inr 7, spool = Inl (HTCondorInternalError ''spool'')\<rparr>
                            (example_job, example_world))))) = Log ERROR (Submit_error ''spool'') \<and>
   fst (start \<lparr>queue_txn = Inl (HTCondorIOError ''schedd''), spool = Inr ()\<rparr>
          (example_job, example_world)) = Inl (HTCondorIOError ''schedd'') \<and>
   query (raising_at 2 (HTCondorIOError ''query'')) 0 = Inr 1 \<and>
   query (raising_at 2 (HTCondorIOError ''query'')) 1 = Inr 1 \<and>
   query (raising_at 2 (HTCondorIOError ''query'')) 2 = Inl (HTCondorIOError ''query'') \<and>
   close (raising_at 2 (HTCondorIOError ''query'')) (example_job, example_world) =
     (Inl (HTCondorIOError ''query''), example_job,
      emit example_world
        (Log INFO Closing_worker # retirement example_job @ polling (job_id example_job) (Suc 2))) \<and>
   act (never_gone (Inl (HTCondorIOError ''act''))) = Inl (HTCondorIOError ''act'') \<and>
   close (never_gone (Inl (HTCondorIOError ''act''))) (example_job, example_world) =
     (Inl (HTCondorIOError ''act''), example_job,
      emit example_world
        (Log INFO Closing_worker # retirement example_job @ polling (job_id example_job) 30 @
         [Log INFO Reached_timeout, Act_Remove (job_id example_job)])) \<and>
   7 \<in> known_jobs (example_world\<lparr>known_jobs := {7}\<rparr>) \<and>
   fst (close_job (Inl (HTCondorIOError ''act'')) 7 (example_world\<lparr>known_jobs := {7}\<rparr>)) =
     Inl (HTCondorIOError ''act'') \<and>
   7 \<in> known_jobs (snd (close_job (Inl (HTCondorIOError ''act'')) 7
                           (example_world\<lparr>known_jobs := {7}\<rparr>)))"
proof -
  let ?s1 = "\<lparr>queue_txn = Inr (7::int), spool = Inl (HTCondorInternalError ''spool'')\<rparr>"
  let ?s2 = "\<lparr>queue_txn = Inl (HTCondorIOError ''schedd''), spool = Inr ()\<rparr>"
  let ?q = "raising_at 2 (HTCondorIOError ''query'')"
  let ?a = "never_gone (Inl (HTCondorIOError ''act''))"
  let ?w7 = "example_world\<lparr>known_jobs := {7}\<rparr>"
  have h1: "queue_txn ?s1 = Inl (HTCondorInternalError ''spool'') \<or>
     (\<exists>cid. queue_txn ?s1 = Inr cid \<and> spool ?s1 = Inl (HTCondorInternalError ''spool''))"
    by simp
  have h2: "(queue_txn ?s2 = Inl (HTCondorIOError ''schedd'') \<or>
     (\<exists>cid. queue_txn ?s2 = Inr cid \<and> spool ?s2 = Inl (HTCondorIOError ''schedd''))) \<and>
     (\<forall>m. HTCondorIOError ''schedd'' \<noteq> HTCondorInternalError m)"
    by simp
  have q: "query ?q 0 = Inr 1 \<and> query ?q 1 = Inr 1 \<and> query ?q 2 = Inl (HTCondorIOError ''query'')"
    by (simp add: raising_at_def)
  have h3: "(2::nat) < 30 \<and> (\<forall>i. i < 2 \<longrightarrow> (\<exists>n. query ?q i = Inr (Suc n))) \<and>
            query ?q 2 = Inl (HTCondorIOError ''query'') \<and>
            (cluster_bound example_job \<longrightarrow> retire_workers ?q = Inr ())"
    by (simp add: raising_at_def)
  have h4: "(\<forall>i. i < 30 \<longrightarrow> (\<exists>n. query ?a i = Inr (Suc n))) \<and>
            act ?a = Inl (HTCondorIOError ''act'') \<and>
            (cluster_bound example_job \<longrightarrow> retire_workers ?a = Inr ())"
    by (simp add: never_gone_def)
  have h5: "7 \<in> known_jobs ?w7"
    by simp
  have a: "fst (start ?s1 (example_job, example_world)) = Inr () \<and>
      last (trace (snd (snd (start ?s1 (example_job, example_world))))) =
        Log ERROR (Submit_error ''spool'')"
    using scheduler_failures_caught_in_start_only
            [where senv = ?s1 and m = "''spool''" and j = example_job and w = example_world] h1
    by blast
  have b: "fst (start ?s2 (example_job, example_world)) = Inl (HTCondorIOError ''schedd'')"
    using scheduler_failures_caught_in_start_only
            [where senv = ?s2 and ex = "HTCondorIOError ''schedd''" and j = example_job
               and w = example_world] h2
    by blast
  have c: "close ?q (example_job, example_world) =
     (Inl (HTCondorIOError ''query''), example_job,
      emit example_world
        (Log INFO Closing_worker # retirement example_job @ polling (job_id example_job) (Suc 2)))"
    using scheduler_failures_caught_in_start_only
            [where env = ?q and k = 2 and ex = "HTCondorIOError ''query''" and j = example_job
               and w = example_world] h3
    by blast
  have d: "close ?a (example_job, example_world) =
     (Inl (HTCondorIOError ''act''), example_job,
      emit example_world
        (Log INFO Closing_worker # retirement example_job @ polling (job_id example_job) 30 @
         [Log INFO Reached_timeout, Act_Remove (job_id example_job)]))"
    using scheduler_failures_caught_in_start_only
            [where env = ?a and ex = "HTCondorIOError ''act''" and j = example_job
               and w = example_world] h4
    by blast
  have e: "close_job (Inl (HTCondorIOError ''act'')) 7 ?w7 =
             (Inl (HTCondorIOError ''act''),
              emit ?w7 [Log WARNING Last_ditch_attempt, Act_Remove (Some 7)]) \<and>
           7 \<in> known_jobs (snd (close_job (Inl (HTCondorIOError ''act'')) 7 ?w7))"
    using scheduler_failures_caught_in_start_only
            [where ex = "HTCondorIOError ''act''" and jid = 7 and w = ?w7] h5
    by blast
  from e have e1: "fst (close_job (Inl (HTCondorIOError ''act'')) 7 ?w7) =
                     Inl (HTCondorIOError ''act'')"
    by simp
  have act: "act ?a = Inl (HTCondorIOError ''act'')"
    using h4 by blast
  from a b q c act d h5 e1 e show ?thesis by blast
qed

text \<open>
  Failures that are not caught, against the claim as it was stated: of the first query
  in \<^verbatim>\<open>close\<close>, of the remove action in \<^verbatim>\<open>close\<close>, of the remove action in the
  finalizer, and of the submit transaction when the class is not
  \<^verbatim>\<open>HTCondorInternalError\<close>. Each call ends with the exception.
\<close>

theorem scheduler_failure_propagates_counterexample:
  "fst (close (query_fails (HTCondorIOError ''Failed to fetch ads from schedd.''))
          (example_job, example_world))
     = Inl (HTCondorIOError ''Failed to fetch ads from schedd.'') \<and>
   fst (close (never_gone (Inl (HTCondorIOError ''Failed to send command to schedd.'')))
          (example_job, example_world))
     = Inl (HTCondorIOError ''Failed to send command to schedd.'') \<and>
   fst (close_job (Inl (HTCondorIOError ''Failed to send command to schedd.'')) 7
          (example_world\<lparr>known_jobs := {7}\<rparr>))
     = Inl (HTCondorIOError ''Failed to send command to schedd.'') \<and>
   fst (start \<lparr>queue_txn = Inl (HTCondorIOError ''Failed to connect to schedd.''), spool = Inr ()\<rparr>
          (example_job, example_world))
     = Inl (HTCondorIOError ''Failed to connect to schedd.'')"
proof (intro conjI)
  let ?q = "query_fails (HTCondorIOError ''Failed to fetch ads from schedd.'')"
  have "close ?q (example_job, example_world) =
          (Inl (HTCondorIOError ''Failed to fetch ads from schedd.''), example_job,
           emit example_world (Log INFO Closing_worker # retirement example_job @
                                 polling (job_id example_job) (Suc 0)))"
    by (rule close_left_by_query) (simp_all add: query_fails_def)
  then show "fst (close ?q (example_job, example_world))
     = Inl (HTCondorIOError ''Failed to fetch ads from schedd.'')"
    by simp
next
  let ?a = "never_gone (Inl (HTCondorIOError ''Failed to send command to schedd.''))"
  have "\<forall>i. i < 30 \<longrightarrow> (\<exists>n. query ?a i = Inr (Suc n))"
    by (simp add: never_gone_def)
  moreover have "cluster_bound example_job \<longrightarrow> retire_workers ?a = Inr ()"
    by (simp add: never_gone_def)
  ultimately show "fst (close ?a (example_job, example_world))
     = Inl (HTCondorIOError ''Failed to send command to schedd.'')"
    by (simp add: close_after_timeout never_gone_def Let_def)
next
  show "fst (close_job (Inl (HTCondorIOError ''Failed to send command to schedd.'')) 7
          (example_world\<lparr>known_jobs := {7}\<rparr>))
     = Inl (HTCondorIOError ''Failed to send command to schedd.'')"
    by (simp add: close_job_def Let_def)
next
  show "fst (start \<lparr>queue_txn = Inl (HTCondorIOError ''Failed to connect to schedd.''), spool = Inr ()\<rparr>
          (example_job, example_world))
     = Inl (HTCondorIOError ''Failed to connect to schedd.'')"
    by (rule start_other_error_eq) simp_all
qed

subsection \<open>Construction of the cluster\<close>

lemma decimal_example: "decimal 10042 = ''10042''"
  by (simp add: decimal.simps)

text \<open>
  C7. The specification asks that a caller's \<^verbatim>\<open>scheduler_options\<close> with a listen address
  win over the generated one and that construction succeed. The source calls
  \<^verbatim>\<open>setdefault\<close> with the generated dictionary as key: for the caller's options
  \<^verbatim>\<open>{"host": "myhost:12345"}\<close> the constructor ends with \<^verbatim>\<open>TypeError\<close>, whatever the host
  name, the port drawn and the base class.
\<close>

theorem cluster_init_scheduler_options_raises:
  "LPCCondorCluster_init hostname port super_init
     [(''scheduler_options'', PDict [(PStr ''host'', PStr ''myhost:12345'')])]
   =
     Inl (TypeError (''unhashable type: '' @ [CHR 0x27] @ ''dict'' @ [CHR 0x27]))"
  by (simp add: LPCCondorCluster_init_def setdefault_def Let_def)

text \<open>
  The same for every dictionary passed as \<^verbatim>\<open>scheduler_options\<close>; without the keyword the
  generated address reaches the base class.
\<close>

lemma cluster_init_any_dict_raises:
  "map_of kwargs ''scheduler_options'' = Some (PDict d) \<Longrightarrow>
   LPCCondorCluster_init hostname port super_init kwargs =
     Inl (TypeError (''unhashable type: '' @ [CHR 0x27] @ ''dict'' @ [CHR 0x27]))"
  by (simp add: LPCCondorCluster_init_def setdefault_def Let_def)

lemma cluster_init_default:
  "map_of kwargs ''scheduler_options'' = None \<Longrightarrow> super_init (AList.update ''scheduler_options''
      (PDict [(PStr ''host'', PStr (hostname @ '':'' @ decimal port))]) kwargs) = Inr c \<Longrightarrow>
   LPCCondorCluster_init hostname port super_init kwargs = Inr c"
  by (simp add: LPCCondorCluster_init_def Let_def)

text \<open>
  A failure of the base class in \<^verbatim>\<open>OSError\<close> or one of its subclasses becomes the
  \<^verbatim>\<open>RuntimeError\<close> that names the port; any other exception passes through.
\<close>

lemma cluster_init_bind_failure:
  "map_of kwargs ''scheduler_options'' = None \<Longrightarrow>
   super_init (AList.update ''scheduler_options''
      (PDict [(PStr ''host'', PStr (hostname @ '':'' @ decimal port))]) kwargs) = Inl ex \<Longrightarrow>
   LPCCondorCluster_init hostname port super_init kwargs =
     (if isinstance_OSError ex
      then Inl (RuntimeError (''Likely failed to bind to local port '' @ decimal port @
                  '', try rerunning''))
      else Inl ex)"
  by (simp add: LPCCondorCluster_init_def Let_def)

subsection \<open>Validation of the log directory\<close>

lemma components_from_example: "components_from [] ''/home/user/logs'' = [''home'', ''user'', ''logs'']"
  by simp

lemma subpath_of_example: "subpath_of ''/home/user'' ''/home/user/logs''"
  by (simp add: subpath_of_def)

lemma not_subpath_of_example: "\<not> subpath_of ''/home/user'' ''/home/username''"
  by (simp add: subpath_of_def)

text \<open>
  C8. The specification asks that a log directory that is not a sub-path of the home
  directory be refused at construction, and so does the message of the source's own
  \<^verbatim>\<open>ValueError\<close>. With home \<^verbatim>\<open>/home/user\<close>, the log directory \<^verbatim>\<open>/home/username\<close> is not a
  sub-path of it, and the constructor returns normally.
\<close>

theorem init_accepts_sibling_of_home:
  "\<not> subpath_of ''/home/user'' ''/home/username'' \<and>
   \<not> raises (LPCCondorJob_init ''/home/user'' img (logging_to ''/home/username''))"
  by (simp add: subpath_of_def raises_def LPCCondorJob_init_def logging_to_def Let_def)

text \<open>The two examples of the specification behave as it says.\<close>

lemma init_rejects_tmp_logs:
  "LPCCondorJob_init ''/home/user'' img (logging_to ''/tmp/logs'') =
     Inl (ValueError ''log_directory must be a subpath of /home/user or else the schedd cannot write our logs back to the container'')"
  by (simp add: LPCCondorJob_init_def logging_to_def Let_def)

lemma init_accepts_home_logs:
  "\<not> raises (LPCCondorJob_init ''/home/user'' img (logging_to ''/home/user/logs''))"
  by (simp add: raises_def LPCCondorJob_init_def logging_to_def Let_def)

text \<open>
  C10. The validation is a test of string prefix: for a controller with a log directory
  \<open>d\<close>, the constructor returns normally exactly when \<open>d\<close> is empty or begins with the
  home directory string. So every log directory that begins with the home directory
  string is accepted, a sub-path or not.
\<close>

theorem init_prefix_test:
  assumes "log_directory base = Some d"
  shows "(\<not> raises (LPCCondorJob_init homedir img base)) = (d = [] \<or> prefix homedir d)"
  using assms by (auto simp: raises_def LPCCondorJob_init_def Let_def)

text \<open>
  The theorem at \<^verbatim>\<open>/home/username\<close> with home \<^verbatim>\<open>/home/user\<close>: a prefix, not a sub-path,
  accepted.
\<close>

theorem init_prefix_test_witness:
  "log_directory (logging_to ''/home/username'') = Some ''/home/username'' \<and>
   prefix ''/home/user'' ''/home/username'' \<and>
   \<not> subpath_of ''/home/user'' ''/home/username'' \<and>
   \<not> raises (LPCCondorJob_init ''/home/user'' ''coffeateam/coffea-dask:latest''
               (logging_to ''/home/username''))"
proof -
  have h: "log_directory (logging_to ''/home/username'') = Some ''/home/username''"
    by (simp add: logging_to_def)
  have p: "prefix ''/home/user'' ''/home/username''" by simp
  have n: "\<not> subpath_of ''/home/user'' ''/home/username''" by (simp add: subpath_of_def)
  from init_prefix_test [OF h, of "''/home/user''" "''coffeateam/coffea-dask:latest''"] p
  have "\<not> raises (LPCCondorJob_init ''/home/user'' ''coffeateam/coffea-dask:latest''
               (logging_to ''/home/username''))"
    by blast
  with h p n show ?thesis by blast
qed

end
